theory Spec2Isabelle
  imports Main
begin

section \<open>Values, classes and exceptions\<close>

text \<open>
  The Screenplay layer of the repository (\<^verbatim>\<open>src/screenplay\<close>) is a small object
  protocol over an external browser driver.  Objects live in a store and are named by
  references; the driver is a parameter whose answers may depend on every call made to
  it so far.  Every function that can raise returns \<open>(exn + 'a) \<times> world\<close>: the
  outcome together with the store as the call left it.
\<close>

type_synonym handle = nat
  \<comment> \<open>an object of the driver: a Browser, a BrowserContext, a Page or an element\<close>

type_synonym ref = nat
  \<comment> \<open>a reference to an object of the store (its index there)\<close>

datatype pyval = PNone | PBool bool | PStr string | PInt int
  \<comment> \<open>the Python values that option bags carry and that questions answer\<close>

fun truthy :: "pyval \<Rightarrow> bool" where
  "truthy PNone = False"
| "truthy (PBool b) = b"
| "truthy (PStr s) = (s \<noteq> [])"
| "truthy (PInt i) = (i \<noteq> 0)"

definition py_or :: "pyval \<Rightarrow> pyval \<Rightarrow> pyval" where
  \<comment> \<open>Python's \<^verbatim>\<open>x or y\<close>\<close>
  "py_or x y = (if truthy x then x else y)"

datatype pyclass = Object | Ability | BrowseTheWeb | UserClass string pyclass
  \<comment> \<open>\<open>UserClass n b\<close> is a class declared as \<^verbatim>\<open>class n(b)\<close>\<close>

fun class_name :: "pyclass \<Rightarrow> string" where
  \<comment> \<open>\<^verbatim>\<open>cls.__name__\<close>\<close>
  "class_name Object = ''object''"
| "class_name Ability = ''Ability''"
| "class_name BrowseTheWeb = ''BrowseTheWeb''"
| "class_name (UserClass n b) = n"

fun mro :: "pyclass \<Rightarrow> pyclass list" where
  \<comment> \<open>a class followed by its ancestors\<close>
  "mro Object = [Object]"
| "mro Ability = [Ability, Object]"
| "mro BrowseTheWeb = [BrowseTheWeb, Ability, Object]"
| "mro (UserClass n b) = UserClass n b # mro b"

definition issubclass :: "pyclass \<Rightarrow> pyclass \<Rightarrow> bool" where
  "issubclass c k = (k \<in> set (mro c))"

datatype exn = ValueError string | DriverError string
  \<comment> \<open>both are subclasses of \<^verbatim>\<open>Exception\<close>; \<open>DriverError\<close> is whatever the driver raises\<close>

section \<open>The driver\<close>

datatype call =
    NewContext handle
  | NewPage handle
  | ClosePage handle
  | CloseContext handle
  | CloseBrowser handle
  | WaitForSelector handle string string
  | Fill handle string string
  | TypeText handle string string "(string \<times> pyval) list"
  | IsVisible handle string
  | QuerySelector handle string
  | TextContent handle string

text \<open>
  The driver is the browser-automation library, outside the repository.  Each of its
  operations receives the calls made before it and its own arguments (the receiver
  first), and either raises or returns; the result types are those of the library's
  interface.  \<open>close_of_page\<close>, \<open>close_of_context\<close> and \<open>close_of_browser\<close> are the
  three methods \<^verbatim>\<open>close\<close>, and \<open>type_keys\<close> is \<^verbatim>\<open>page.type\<close> with its keyword arguments.
\<close>

record driver =
  new_context :: "call list \<Rightarrow> handle \<Rightarrow> exn + handle"
  new_page :: "call list \<Rightarrow> handle \<Rightarrow> exn + handle"
  close_of_page :: "call list \<Rightarrow> handle \<Rightarrow> exn + unit"
  close_of_context :: "call list \<Rightarrow> handle \<Rightarrow> exn + unit"
  close_of_browser :: "call list \<Rightarrow> handle \<Rightarrow> exn + unit"
  wait_for_selector :: "call list \<Rightarrow> handle \<Rightarrow> string \<Rightarrow> string \<Rightarrow> exn + unit"
  fill :: "call list \<Rightarrow> handle \<Rightarrow> string \<Rightarrow> string \<Rightarrow> exn + unit"
  type_keys :: "call list \<Rightarrow> handle \<Rightarrow> string \<Rightarrow> string \<Rightarrow> (string \<times> pyval) list \<Rightarrow> exn + unit"
  is_visible :: "call list \<Rightarrow> handle \<Rightarrow> string \<Rightarrow> exn + bool"
  query_selector :: "call list \<Rightarrow> handle \<Rightarrow> string \<Rightarrow> exn + handle option"
  text_content :: "call list \<Rightarrow> handle \<Rightarrow> string \<Rightarrow> exn + string option"

section \<open>The store\<close>

text \<open>
  An ability object is an instance of \<^verbatim>\<open>BrowseTheWeb\<close> or of a class that inherits its
  methods; \<open>type_of\<close> is its class and the other fields are its four attributes.  An
  actor object has a name and the dict of its abilities, keyed by class.
\<close>

record browse_the_web =
  type_of :: pyclass
  p_browser :: handle
  p_context :: "handle option"
  p_page :: "handle option"
  p_actor :: "ref option"

record actor =
  name :: string
  abilities :: "pyclass \<rightharpoonup> ref"

record world =
  actors :: "actor list"
  objs :: "browse_the_web list"
  calls :: "call list"

definition invoke :: "(call list \<Rightarrow> exn + 'a) \<Rightarrow> call \<Rightarrow> world \<Rightarrow> (exn + 'a) \<times> world" where
  \<comment> \<open>one call into the driver: its answer, and the call recorded\<close>
  "invoke f c w = (f (calls w), w\<lparr>calls := calls w @ [c]\<rparr>)"

definition upd_obj :: "ref \<Rightarrow> (browse_the_web \<Rightarrow> browse_the_web) \<Rightarrow> world \<Rightarrow> world" where
  \<comment> \<open>an attribute assignment on the object at \<open>r\<close>\<close>
  "upd_obj r f w = w\<lparr>objs := (objs w)[r := f (objs w ! r)]\<rparr>"

section \<open>\<^verbatim>\<open>abilities/browse_the_web.py\<close>\<close>

definition BrowseTheWeb_init ::
  "pyclass \<Rightarrow> handle \<Rightarrow> handle option \<Rightarrow> handle option \<Rightarrow> world \<Rightarrow> ref \<times> world" where
  \<comment> \<open>\<^verbatim>\<open>cls(browser, context, page)\<close>: a new object, its \<^verbatim>\<open>_actor\<close> None\<close>
  "BrowseTheWeb_init cls browser context page w =
     (length (objs w),
      w\<lparr>objs := objs w @
         [\<lparr>type_of = cls, p_browser = browser, p_context = context, p_page = page,
           p_actor = None\<rparr>]\<rparr>)"

definition BrowseTheWeb_using :: "pyclass \<Rightarrow> handle \<Rightarrow> world \<Rightarrow> ref \<times> world" where
  \<comment> \<open>the class method \<^verbatim>\<open>using\<close>\<close>
  "BrowseTheWeb_using cls browser w = BrowseTheWeb_init cls browser None None w"

definition as_actor :: "ref \<Rightarrow> ref \<Rightarrow> world \<Rightarrow> ref \<times> world" where
  \<comment> \<open>the copy is made with \<^verbatim>\<open>BrowseTheWeb(...)\<close>, whatever the class of \<open>self\<close>\<close>
  "as_actor self a w =
     (case BrowseTheWeb_init BrowseTheWeb (p_browser (objs w ! self))
             (p_context (objs w ! self)) (p_page (objs w ! self)) w of
        (ability, w1) \<Rightarrow> (ability, upd_obj ability (\<lambda>ob. ob\<lparr>p_actor := Some a\<rparr>) w1))"

definition context_prop :: "driver \<Rightarrow> ref \<Rightarrow> world \<Rightarrow> (exn + handle) \<times> world" where
  \<comment> \<open>the property \<^verbatim>\<open>context\<close>\<close>
  "context_prop drv self w =
     (case p_context (objs w ! self) of
        None \<Rightarrow>
          (case invoke (\<lambda>h. new_context drv h (p_browser (objs w ! self)))
                  (NewContext (p_browser (objs w ! self))) w of
             (Inl e, w1) \<Rightarrow> (Inl e, w1)
           | (Inr c, w1) \<Rightarrow> (Inr c, upd_obj self (\<lambda>ob. ob\<lparr>p_context := Some c\<rparr>) w1))
      | Some c \<Rightarrow> (Inr c, w))"

definition page_prop :: "driver \<Rightarrow> ref \<Rightarrow> world \<Rightarrow> (exn + handle) \<times> world" where
  \<comment> \<open>the property \<^verbatim>\<open>page\<close>\<close>
  "page_prop drv self w =
     (case p_page (objs w ! self) of
        None \<Rightarrow>
          (case context_prop drv self w of
             (Inl e, w1) \<Rightarrow> (Inl e, w1)
           | (Inr c, w1) \<Rightarrow>
               (case invoke (\<lambda>h. new_page drv h c) (NewPage c) w1 of
                  (Inl e, w2) \<Rightarrow> (Inl e, w2)
                | (Inr p, w2) \<Rightarrow> (Inr p, upd_obj self (\<lambda>ob. ob\<lparr>p_page := Some p\<rparr>) w2)))
      | Some p \<Rightarrow> (Inr p, w))"

definition new_page_of :: "driver \<Rightarrow> ref \<Rightarrow> world \<Rightarrow> (exn + handle) \<times> world" where
  \<comment> \<open>the method \<^verbatim>\<open>new_page\<close>\<close>
  "new_page_of drv self w =
     (case context_prop drv self w of
        (Inl e, w1) \<Rightarrow> (Inl e, w1)
      | (Inr c, w1) \<Rightarrow> invoke (\<lambda>h. new_page drv h c) (NewPage c) w1)"

definition close_page :: "driver \<Rightarrow> ref \<Rightarrow> world \<Rightarrow> (exn + unit) \<times> world" where
  \<comment> \<open>the guard \<^verbatim>\<open>if self._page\<close> fails on None only: an object of the driver is truthy\<close>
  "close_page drv self w =
     (case p_page (objs w ! self) of
        None \<Rightarrow> (Inr (), w)
      | Some p \<Rightarrow>
          (case invoke (\<lambda>h. close_of_page drv h p) (ClosePage p) w of
             (Inl e, w1) \<Rightarrow> (Inl e, w1)
           | (Inr u, w1) \<Rightarrow> (Inr (), upd_obj self (\<lambda>ob. ob\<lparr>p_page := None\<rparr>) w1)))"

definition close_context :: "driver \<Rightarrow> ref \<Rightarrow> world \<Rightarrow> (exn + unit) \<times> world" where
  "close_context drv self w =
     (case p_context (objs w ! self) of
        None \<Rightarrow> (Inr (), w)
      | Some c \<Rightarrow>
          (case invoke (\<lambda>h. close_of_context drv h c) (CloseContext c) w of
             (Inl e, w1) \<Rightarrow> (Inl e, w1)
           | (Inr u, w1) \<Rightarrow>
               (Inr (), upd_obj self (\<lambda>ob. ob\<lparr>p_page := None\<rparr>)
                          (upd_obj self (\<lambda>ob. ob\<lparr>p_context := None\<rparr>) w1))))"

definition close_browser :: "driver \<Rightarrow> ref \<Rightarrow> world \<Rightarrow> (exn + unit) \<times> world" where
  \<comment> \<open>a Browser object is truthy, so the guard \<^verbatim>\<open>if self._browser\<close> always passes\<close>
  "close_browser drv self w =
     invoke (\<lambda>h. close_of_browser drv h (p_browser (objs w ! self)))
       (CloseBrowser (p_browser (objs w ! self))) w"

section \<open>\<^verbatim>\<open>base.py\<close>: the actor\<close>

definition Actor_init :: "string \<Rightarrow> world \<Rightarrow> ref \<times> world" where
  "Actor_init n w =
     (length (actors w), w\<lparr>actors := actors w @ [\<lparr>name = n, abilities = Map.empty\<rparr>]\<rparr>)"

definition store_ability :: "ref \<Rightarrow> pyclass \<Rightarrow> ref \<Rightarrow> world \<Rightarrow> world" where
  \<comment> \<open>\<^verbatim>\<open>self._abilities[k] = b\<close>\<close>
  "store_ability a k b w =
     w\<lparr>actors := (actors w)[a := (actors w ! a)\<lparr>abilities := (abilities (actors w ! a))(k \<mapsto> b)\<rparr>]\<rparr>"

fun who_can :: "ref \<Rightarrow> ref list \<Rightarrow> world \<Rightarrow> ref \<times> world" where
  "who_can a [] w = (a, w)"
| "who_can a (ability # rest) w =
     (case as_actor ability a w of
        (b, w1) \<Rightarrow> who_can a rest (store_ability a (type_of (objs w ! ability)) b w1))"

definition has_ability_to :: "ref \<Rightarrow> pyclass \<Rightarrow> world \<Rightarrow> bool" where
  "has_ability_to a ability_class w = (abilities (actors w ! a) ability_class \<noteq> None)"

definition ability_to :: "ref \<Rightarrow> pyclass \<Rightarrow> world \<Rightarrow> exn + ref" where
  "ability_to a ability_class w =
     (if \<not> has_ability_to a ability_class w
      then Inl (ValueError (''Actor '' @ name (actors w ! a) @ '' does not have the ability ''
                              @ class_name ability_class))
      else Inr (the (abilities (actors w ! a) ability_class)))"

type_synonym performable = "ref \<Rightarrow> world \<Rightarrow> (exn + pyval) \<times> world"
  \<comment> \<open>\<^verbatim>\<open>perform_as\<close> of some Task or Interaction\<close>

fun attempts_to :: "ref \<Rightarrow> performable list \<Rightarrow> world \<Rightarrow> (exn + ref) \<times> world" where
  "attempts_to a [] w = (Inr a, w)"
| "attempts_to a (task # tasks) w =
     (case task a w of
        (Inl e, w1) \<Rightarrow> (Inl e, w1)
      | (Inr v, w1) \<Rightarrow> attempts_to a tasks w1)"

definition asks :: "ref \<Rightarrow> (ref \<Rightarrow> world \<Rightarrow> (exn + pyval) \<times> world) \<Rightarrow> world \<Rightarrow> (exn + pyval) \<times> world" where
  "asks a question w = question a w"

section \<open>\<^verbatim>\<open>interactions/type.py\<close>\<close>

type_synonym options = "(string \<times> pyval) list"
  \<comment> \<open>a dict with string keys, as the list of its items\<close>

record type_interaction =
  type_text :: string
  type_locator :: string
  type_options :: options

definition Type_init :: "string \<Rightarrow> string \<Rightarrow> options option \<Rightarrow> type_interaction" where
  \<comment> \<open>\<^verbatim>\<open>self.options = options or {}\<close>\<close>
  "Type_init t l opts =
     \<lparr>type_text = t, type_locator = l,
      type_options = (case opts of None \<Rightarrow> [] | Some d \<Rightarrow> if d = [] then [] else d)\<rparr>"

definition TypeBuilder_into :: "string \<Rightarrow> string \<Rightarrow> options \<Rightarrow> type_interaction" where
  \<comment> \<open>\<^verbatim>\<open>Type.the_text(t).into(l, **options)\<close>\<close>
  "TypeBuilder_into t l opts = Type_init t l (Some opts)"

definition dict_get :: "options \<Rightarrow> string \<Rightarrow> pyval \<Rightarrow> pyval" where
  \<comment> \<open>\<^verbatim>\<open>d.get(k, default)\<close>\<close>
  "dict_get d k dflt = (case map_of d k of None \<Rightarrow> dflt | Some v \<Rightarrow> v)"

definition passed_options :: "options \<Rightarrow> options" where
  \<comment> \<open>\<^verbatim>\<open>{k: v for k, v in options.items() if k != 'clear'}\<close>\<close>
  "passed_options d = filter (\<lambda>(k, v). k \<noteq> ''clear'') d"

definition Type_perform_as :: "driver \<Rightarrow> type_interaction \<Rightarrow> performable" where
  "Type_perform_as drv self actor w =
     (case ability_to actor BrowseTheWeb w of
        Inl e \<Rightarrow> (Inl e, w)
      | Inr browse_ability \<Rightarrow>
          (case page_prop drv browse_ability w of
             (Inl e, w1) \<Rightarrow> (Inl e, w1)
           | (Inr page, w1) \<Rightarrow>
               (case invoke (\<lambda>h. wait_for_selector drv h page (type_locator self) ''visible'')
                       (WaitForSelector page (type_locator self) ''visible'') w1 of
                  (Inl e, w2) \<Rightarrow> (Inl e, w2)
                | (Inr u, w2) \<Rightarrow>
                    (case (if truthy (dict_get (type_options self) ''clear'' (PBool True))
                           then invoke (\<lambda>h. fill drv h page (type_locator self) '''')
                                  (Fill page (type_locator self) '''') w2
                           else (Inr (), w2)) of
                       (Inl e, w3) \<Rightarrow> (Inl e, w3)
                     | (Inr u, w3) \<Rightarrow>
                         (case invoke (\<lambda>h. type_keys drv h page (type_locator self) (type_text self)
                                              (passed_options (type_options self)))
                                 (TypeText page (type_locator self) (type_text self)
                                    (passed_options (type_options self))) w3 of
                            (Inl e, w4) \<Rightarrow> (Inl e, w4)
                          | (Inr u, w4) \<Rightarrow> (Inr PNone, w4))))))"

section \<open>\<^verbatim>\<open>questions/visibility.py\<close> and \<^verbatim>\<open>questions/text.py\<close>\<close>

definition Visibility_answered_by :: "driver \<Rightarrow> string \<Rightarrow> ref \<Rightarrow> world \<Rightarrow> (exn + pyval) \<times> world" where
  \<comment> \<open>the second argument is \<^verbatim>\<open>self.locator\<close>; only the driver call is inside \<^verbatim>\<open>try\<close>\<close>
  "Visibility_answered_by drv locator actor w =
     (case ability_to actor BrowseTheWeb w of
        Inl e \<Rightarrow> (Inl e, w)
      | Inr browse_ability \<Rightarrow>
          (case page_prop drv browse_ability w of
             (Inl e, w1) \<Rightarrow> (Inl e, w1)
           | (Inr page, w1) \<Rightarrow>
               (case invoke (\<lambda>h. is_visible drv h page locator) (IsVisible page locator) w1 of
                  (Inl e, w2) \<Rightarrow> (Inr (PBool False), w2)
                | (Inr b, w2) \<Rightarrow> (Inr (PBool b), w2))))"

definition Presence_answered_by :: "driver \<Rightarrow> string \<Rightarrow> ref \<Rightarrow> world \<Rightarrow> (exn + pyval) \<times> world" where
  "Presence_answered_by drv locator actor w =
     (case ability_to actor BrowseTheWeb w of
        Inl e \<Rightarrow> (Inl e, w)
      | Inr browse_ability \<Rightarrow>
          (case page_prop drv browse_ability w of
             (Inl e, w1) \<Rightarrow> (Inl e, w1)
           | (Inr page, w1) \<Rightarrow>
               (case invoke (\<lambda>h. query_selector drv h page locator) (QuerySelector page locator) w1 of
                  (Inl e, w2) \<Rightarrow> (Inr (PBool False), w2)
                | (Inr element, w2) \<Rightarrow> (Inr (PBool (element \<noteq> None)), w2))))"

definition text_value :: "string option \<Rightarrow> pyval" where
  \<comment> \<open>what \<^verbatim>\<open>text_content\<close> returns, as a Python value\<close>
  "text_value t = (case t of None \<Rightarrow> PNone | Some s \<Rightarrow> PStr s)"

definition Text_answered_by :: "driver \<Rightarrow> string \<Rightarrow> ref \<Rightarrow> world \<Rightarrow> (exn + pyval) \<times> world" where
  "Text_answered_by drv locator actor w =
     (case ability_to actor BrowseTheWeb w of
        Inl e \<Rightarrow> (Inl e, w)
      | Inr browse_ability \<Rightarrow>
          (case page_prop drv browse_ability w of
             (Inl e, w1) \<Rightarrow> (Inl e, w1)
           | (Inr page, w1) \<Rightarrow>
               (case invoke (\<lambda>h. wait_for_selector drv h page locator ''visible'')
                       (WaitForSelector page locator ''visible'') w1 of
                  (Inl e, w2) \<Rightarrow> (Inl e, w2)
                | (Inr u, w2) \<Rightarrow>
                    (case invoke (\<lambda>h. text_content drv h page locator) (TextContent page locator) w2 of
                       (Inl e, w3) \<Rightarrow> (Inl e, w3)
                     | (Inr t, w3) \<Rightarrow> (Inr (py_or (text_value t) (PStr '''')), w3)))))"

section \<open>Sequences of operations on an ability\<close>

datatype ability_op = GetContext | GetPage | MakePage | DoClosePage | DoCloseContext | DoCloseBrowser

fun run_op :: "driver \<Rightarrow> ref \<Rightarrow> ability_op \<Rightarrow> world \<Rightarrow> world" where
  \<comment> \<open>the store after one operation on the ability at \<open>r\<close>, whether it returned or raised\<close>
  "run_op drv r GetContext w = snd (context_prop drv r w)"
| "run_op drv r GetPage w = snd (page_prop drv r w)"
| "run_op drv r MakePage w = snd (new_page_of drv r w)"
| "run_op drv r DoClosePage w = snd (close_page drv r w)"
| "run_op drv r DoCloseContext w = snd (close_context drv r w)"
| "run_op drv r DoCloseBrowser w = snd (close_browser drv r w)"

fun run_ops :: "driver \<Rightarrow> ref \<Rightarrow> ability_op list \<Rightarrow> world \<Rightarrow> world" where
  "run_ops drv r [] w = w"
| "run_ops drv r (op # ops) w = run_ops drv r ops (run_op drv r op w)"

section \<open>A sample driver and sample stores\<close>

definition sample_driver :: driver where
  \<comment> \<open>hands out handles numbered by the calls so far; every operation on the element
      \<^verbatim>\<open>#gone\<close> raises, \<^verbatim>\<open>#readonly\<close> cannot be filled, and \<^verbatim>\<open>#empty\<close> has no
      text content\<close>
  "sample_driver =
     \<lparr>new_context = (\<lambda>h b. Inr (100 + length h)),
      new_page = (\<lambda>h c. Inr (100 + length h)),
      close_of_page = (\<lambda>h p. Inr ()),
      close_of_context = (\<lambda>h c. Inr ()),
      close_of_browser = (\<lambda>h b. Inr ()),
      wait_for_selector = (\<lambda>h p l s. if l = ''#gone'' then Inl (DriverError ''Timeout'') else Inr ()),
      fill = (\<lambda>h p l t. if l = ''#readonly'' then Inl (DriverError ''Not editable'') else Inr ()),
      type_keys = (\<lambda>h p l t kw. Inr ()),
      is_visible = (\<lambda>h p l. if l = ''#gone'' then Inl (DriverError ''Frame detached'') else Inr True),
      query_selector = (\<lambda>h p l. if l = ''#gone'' then Inl (DriverError ''Frame detached'') else Inr (Some 7)),
      text_content = (\<lambda>h p l. if l = ''#empty'' then Inr None else Inr (Some ''Congratulations''))\<rparr>"

definition dead_driver :: driver where
  \<comment> \<open>a browser that has gone away: creating a context raises\<close>
  "dead_driver = sample_driver\<lparr>new_context := (\<lambda>h b. Inl (DriverError ''Browser closed''))\<rparr>"

definition sample_world :: world where
  \<comment> \<open>one actor without abilities and three unbound abilities on browser 1: one made from
      an existing page (context 2, page 3), one made from the browser alone, and one
      instance of a subclass of \<^verbatim>\<open>BrowseTheWeb\<close>\<close>
  "sample_world =
     \<lparr>actors = [\<lparr>name = ''Ana'', abilities = Map.empty\<rparr>],
      objs = [\<lparr>type_of = BrowseTheWeb, p_browser = 1, p_context = Some 2, p_page = Some 3,
               p_actor = None\<rparr>,
              \<lparr>type_of = BrowseTheWeb, p_browser = 1, p_context = None, p_page = None,
               p_actor = None\<rparr>,
              \<lparr>type_of = UserClass ''BrowseAsAdmin'' BrowseTheWeb, p_browser = 1,
               p_context = None, p_page = None, p_actor = None\<rparr>],
      calls = []\<rparr>"

definition granted_world :: world where
  \<comment> \<open>\<open>sample_world\<close> after Ana is granted the first ability\<close>
  "granted_world = snd (who_can 0 [0] sample_world)"

definition lazy_world :: world where
  \<comment> \<open>\<open>sample_world\<close> after Ana is granted the second ability\<close>
  "lazy_world = snd (who_can 0 [1] sample_world)"

definition type_user :: type_interaction where
  "type_user = TypeBuilder_into ''student'' ''#username'' []"

definition type_gone :: type_interaction where
  "type_gone = TypeBuilder_into ''Password123'' ''#gone'' []"

definition type_pass :: type_interaction where
  "type_pass = TypeBuilder_into ''Password123'' ''#password'' []"

definition type_readonly :: type_interaction where
  "type_readonly = TypeBuilder_into ''student'' ''#readonly'' []"

definition type_slowly :: type_interaction where
  "type_slowly = TypeBuilder_into ''student'' ''#username'' [(''delay'', PInt 50), (''clear'', PBool False)]"

section \<open>The actor runs its performables in order\<close>

lemmas sample_defs =
  sample_world_def granted_world_def sample_driver_def

lemmas model_defs =
  ability_to_def has_ability_to_def as_actor_def BrowseTheWeb_init_def upd_obj_def
  store_ability_def context_prop_def page_prop_def invoke_def

lemma attempts_to_append:
  "attempts_to a (ps @ qs) w =
     (case attempts_to a ps w of
        (Inl e, w1) \<Rightarrow> (Inl e, w1)
      | (Inr r, w1) \<Rightarrow> attempts_to a qs w1)"
  by (induction ps arbitrary: w) (auto split: prod.splits sum.splits)

lemma attempts_to_result: "fst (attempts_to a ps w) = Inr r \<Longrightarrow> r = a"
  by (induction ps arbitrary: w) (auto split: prod.splits sum.splits)

text \<open>
  Claim C1.  \<open>attempts_to\<close> calls \<open>perform_as\<close> of each performable with the actor, in
  the order given, each on the store its predecessor left.  When the performables \<open>ps\<close>
  have succeeded and the next one, \<open>p\<close>, raises \<open>e\<close>, the call raises that same \<open>e\<close> and
  the store is the one \<open>p\<close> left, whatever follows \<open>p\<close>: nothing after \<open>p\<close> has run.
  When \<open>p\<close> succeeds the rest runs on the store \<open>p\<close> left, and a call whose performables
  all succeed returns the actor.
\<close>

theorem attempts_to_in_order:
  "attempts_to a [] w = (Inr a, w)
   \<and> (fst (attempts_to a ps w) = Inr r \<longrightarrow> fst (p a (snd (attempts_to a ps w))) = Inl e \<longrightarrow>
        attempts_to a (ps @ p # qs) w = (Inl e, snd (p a (snd (attempts_to a ps w)))))
   \<and> (fst (attempts_to a ps w) = Inr r \<longrightarrow> fst (p a (snd (attempts_to a ps w))) = Inr v \<longrightarrow>
        attempts_to a (ps @ p # qs) w = attempts_to a qs (snd (p a (snd (attempts_to a ps w))))
        \<and> attempts_to a (ps @ [p]) w = (Inr a, snd (p a (snd (attempts_to a ps w)))))
   \<and> (fst (attempts_to a ps w) = Inr r \<longrightarrow> r = a)"
proof -
  have fail: "attempts_to a (ps @ p # qs) w = (Inl e, snd (p a (snd (attempts_to a ps w))))"
    if "fst (attempts_to a ps w) = Inr r" "fst (p a (snd (attempts_to a ps w))) = Inl e"
    using that by (cases "attempts_to a ps w"; cases "p a (snd (attempts_to a ps w))")
      (simp add: attempts_to_append)
  have ok: "attempts_to a (ps @ p # qs') w = attempts_to a qs' (snd (p a (snd (attempts_to a ps w))))"
    if "fst (attempts_to a ps w) = Inr r" "fst (p a (snd (attempts_to a ps w))) = Inr v" for qs'
    using that by (cases "attempts_to a ps w"; cases "p a (snd (attempts_to a ps w))")
      (simp add: attempts_to_append)
  show ?thesis
    using fail ok [of qs] ok [of "[]"] attempts_to_result [of a ps w r] by simp
qed

theorem attempts_to_in_order_witness:
  "fst (attempts_to 0 [Type_perform_as sample_driver type_user] granted_world) = Inr 0
   \<and> fst (Type_perform_as sample_driver type_gone 0
            (snd (attempts_to 0 [Type_perform_as sample_driver type_user] granted_world)))
       = Inl (DriverError ''Timeout'')
   \<and> fst (attempts_to 0 [Type_perform_as sample_driver type_user,
            Type_perform_as sample_driver type_gone, Type_perform_as sample_driver type_pass]
            granted_world) = Inl (DriverError ''Timeout'')
   \<and> calls (snd (attempts_to 0 [Type_perform_as sample_driver type_user,
            Type_perform_as sample_driver type_gone, Type_perform_as sample_driver type_pass]
            granted_world))
       = [WaitForSelector 3 ''#username'' ''visible'', Fill 3 ''#username'' '''',
          TypeText 3 ''#username'' ''student'' [], WaitForSelector 3 ''#gone'' ''visible'']
   \<and> fst (Type_perform_as sample_driver type_pass 0
            (snd (attempts_to 0 [Type_perform_as sample_driver type_user] granted_world)))
       = Inr PNone
   \<and> fst (attempts_to 0 [Type_perform_as sample_driver type_user,
            Type_perform_as sample_driver type_pass] granted_world) = Inr 0
   \<and> calls (snd (attempts_to 0 [Type_perform_as sample_driver type_user,
            Type_perform_as sample_driver type_pass] granted_world))
       = [WaitForSelector 3 ''#username'' ''visible'', Fill 3 ''#username'' '''',
          TypeText 3 ''#username'' ''student'' [],
          WaitForSelector 3 ''#password'' ''visible'', Fill 3 ''#password'' '''',
          TypeText 3 ''#password'' ''Password123'' []]"
proof -
  note defs = Type_perform_as_def TypeBuilder_into_def Type_init_def dict_get_def
    passed_options_def model_defs sample_defs type_user_def type_gone_def type_pass_def
  have h1: "fst (attempts_to 0 [Type_perform_as sample_driver type_user] granted_world) = Inr 0"
    by (simp add: defs)
  have h2: "fst (Type_perform_as sample_driver type_gone 0
            (snd (attempts_to 0 [Type_perform_as sample_driver type_user] granted_world)))
       = Inl (DriverError ''Timeout'')"
    by (simp add: defs)
  have h3: "calls (snd (Type_perform_as sample_driver type_gone 0
            (snd (attempts_to 0 [Type_perform_as sample_driver type_user] granted_world))))
       = [WaitForSelector 3 ''#username'' ''visible'', Fill 3 ''#username'' '''',
          TypeText 3 ''#username'' ''student'' [], WaitForSelector 3 ''#gone'' ''visible'']"
    by (simp add: defs)
  have h4: "fst (Type_perform_as sample_driver type_pass 0
            (snd (attempts_to 0 [Type_perform_as sample_driver type_user] granted_world)))
       = Inr PNone"
    by (simp add: defs)
  have h5: "calls (snd (Type_perform_as sample_driver type_pass 0
            (snd (attempts_to 0 [Type_perform_as sample_driver type_user] granted_world))))
       = [WaitForSelector 3 ''#username'' ''visible'', Fill 3 ''#username'' '''',
          TypeText 3 ''#username'' ''student'' [],
          WaitForSelector 3 ''#password'' ''visible'', Fill 3 ''#password'' '''',
          TypeText 3 ''#password'' ''Password123'' []]"
    by (simp add: defs)
  from attempts_to_in_order [of 0 granted_world "[Type_perform_as sample_driver type_user]" 0
      "Type_perform_as sample_driver type_gone" "DriverError ''Timeout''"
      "[Type_perform_as sample_driver type_pass]"] h1 h2
  have stop: "attempts_to 0 ([Type_perform_as sample_driver type_user] @
            Type_perform_as sample_driver type_gone # [Type_perform_as sample_driver type_pass])
            granted_world
        = (Inl (DriverError ''Timeout''), snd (Type_perform_as sample_driver type_gone 0
            (snd (attempts_to 0 [Type_perform_as sample_driver type_user] granted_world))))"
    by blast
  from attempts_to_in_order [of 0 granted_world "[Type_perform_as sample_driver type_user]" 0
      "Type_perform_as sample_driver type_pass" _ "[]" PNone] h1 h4
  have go: "attempts_to 0 ([Type_perform_as sample_driver type_user] @
            [Type_perform_as sample_driver type_pass]) granted_world
        = (Inr 0, snd (Type_perform_as sample_driver type_pass 0
            (snd (attempts_to 0 [Type_perform_as sample_driver type_user] granted_world))))"
    by blast
  from stop go h1 h2 h3 h4 h5 show ?thesis by simp
qed

section \<open>Granting and looking up abilities\<close>

lemma as_actor_eq:
  "as_actor x a w =
     (length (objs w),
      w\<lparr>objs := objs w @
         [\<lparr>type_of = BrowseTheWeb, p_browser = p_browser (objs w ! x),
           p_context = p_context (objs w ! x), p_page = p_page (objs w ! x),
           p_actor = Some a\<rparr>]\<rparr>)"
  by (simp add: as_actor_def BrowseTheWeb_init_def upd_obj_def)

lemma who_can_Cons:
  "who_can a (x # xs) w =
     who_can a xs
       (store_ability a (type_of (objs w ! x)) (length (objs w))
          (w\<lparr>objs := objs w @
             [\<lparr>type_of = BrowseTheWeb, p_browser = p_browser (objs w ! x),
               p_context = p_context (objs w ! x), p_page = p_page (objs w ! x),
               p_actor = Some a\<rparr>]\<rparr>))"
  by (simp add: as_actor_eq)

lemma who_can_other_kind:
  "\<forall>x \<in> set xs. x < length (objs w) \<and> type_of (objs w ! x) \<noteq> k \<Longrightarrow>
     abilities (actors (snd (who_can a xs w)) ! a) k = abilities (actors w ! a) k
     \<and> name (actors (snd (who_can a xs w)) ! a) = name (actors w ! a)"
proof (induction xs arbitrary: w)
  case Nil
  then show ?case by simp
next
  case (Cons x xs)
  let ?w = "store_ability a (type_of (objs w ! x)) (length (objs w))
          (w\<lparr>objs := objs w @
             [\<lparr>type_of = BrowseTheWeb, p_browser = p_browser (objs w ! x),
               p_context = p_context (objs w ! x), p_page = p_page (objs w ! x),
               p_actor = Some a\<rparr>]\<rparr>)"
  have "\<forall>y \<in> set xs. y < length (objs ?w) \<and> type_of (objs ?w ! y) \<noteq> k"
    using Cons.prems by (auto simp: store_ability_def nth_append)
  from Cons.IH [OF this] have
    "abilities (actors (snd (who_can a (x # xs) w)) ! a) k = abilities (actors ?w ! a) k"
    "name (actors (snd (who_can a (x # xs) w)) ! a) = name (actors ?w ! a)"
    by (simp_all add: who_can_Cons del: who_can.simps(2))
  moreover have "abilities (actors ?w ! a) k = abilities (actors w ! a) k"
    using Cons.prems
    by (cases "a < length (actors w)") (auto simp: store_ability_def list_update_beyond)
  moreover have "name (actors ?w ! a) = name (actors w ! a)"
    by (cases "a < length (actors w)") (simp_all add: store_ability_def list_update_beyond)
  ultimately show ?case by simp
qed

text \<open>
  Claim C2.  When the actor's ability table has no entry for the class \<open>k\<close>,
  \<open>ability_to\<close> raises the error of a missing ability (in the source a \<^verbatim>\<open>ValueError\<close>)
  whose message holds the actor's name and the name of \<open>k\<close>.  In particular this is so
  for an actor created with the name \<open>n\<close> and then granted any abilities \<open>xs\<close> none of
  which is an instance of class \<open>k\<close>.
\<close>

theorem ability_to_missing:
  "(abilities (actors w ! a) k = None \<longrightarrow>
      ability_to a k w =
        Inl (ValueError (''Actor '' @ name (actors w ! a) @ '' does not have the ability ''
                           @ class_name k)))
   \<and> ((\<forall>x \<in> set xs. x < length (objs w) \<and> type_of (objs w ! x) \<noteq> k) \<longrightarrow>
        ability_to (fst (Actor_init n w)) k
          (snd (who_can (fst (Actor_init n w)) xs (snd (Actor_init n w)))) =
        Inl (ValueError (''Actor '' @ n @ '' does not have the ability '' @ class_name k)))"
proof -
  let ?a = "fst (Actor_init n w)" and ?w1 = "snd (Actor_init n w)"
  have init: "abilities (actors ?w1 ! ?a) k = None" "name (actors ?w1 ! ?a) = n" "objs ?w1 = objs w"
    by (simp_all add: Actor_init_def)
  have "ability_to ?a k (snd (who_can ?a xs ?w1)) =
        Inl (ValueError (''Actor '' @ n @ '' does not have the ability '' @ class_name k))"
    if "\<forall>x \<in> set xs. x < length (objs w) \<and> type_of (objs w ! x) \<noteq> k"
  proof -
    from that have "\<forall>x \<in> set xs. x < length (objs ?w1) \<and> type_of (objs ?w1 ! x) \<noteq> k"
      by (simp add: init)
    from who_can_other_kind [OF this, of ?a] init show ?thesis
      by (simp add: ability_to_def has_ability_to_def)
  qed
  then show ?thesis
    by (simp add: ability_to_def has_ability_to_def)
qed

theorem ability_to_missing_witness:
  "abilities (actors sample_world ! 0) BrowseTheWeb = None
   \<and> ability_to 0 BrowseTheWeb sample_world =
        Inl (ValueError ''Actor Ana does not have the ability BrowseTheWeb'')
   \<and> (0::nat) < length (objs sample_world)
   \<and> type_of (objs sample_world ! 0) \<noteq> UserClass ''BrowseAsAdmin'' BrowseTheWeb
   \<and> (1::nat) < length (objs sample_world)
   \<and> type_of (objs sample_world ! 1) \<noteq> UserClass ''BrowseAsAdmin'' BrowseTheWeb
   \<and> ability_to (fst (Actor_init ''Bea'' sample_world)) (UserClass ''BrowseAsAdmin'' BrowseTheWeb)
          (snd (who_can (fst (Actor_init ''Bea'' sample_world)) [0, 1]
                  (snd (Actor_init ''Bea'' sample_world)))) =
        Inl (ValueError ''Actor Bea does not have the ability BrowseAsAdmin'')"
proof -
  have h: "abilities (actors sample_world ! 0) BrowseTheWeb = None"
    "name (actors sample_world ! 0) = ''Ana''"
    "(0::nat) < length (objs sample_world)"
    "type_of (objs sample_world ! 0) \<noteq> UserClass ''BrowseAsAdmin'' BrowseTheWeb"
    "(1::nat) < length (objs sample_world)"
    "type_of (objs sample_world ! 1) \<noteq> UserClass ''BrowseAsAdmin'' BrowseTheWeb"
    by (simp_all add: sample_world_def)
  then have all: "\<forall>x \<in> set [0, 1]. x < length (objs sample_world)
         \<and> type_of (objs sample_world ! x) \<noteq> UserClass ''BrowseAsAdmin'' BrowseTheWeb"
    by simp
  from ability_to_missing [where w = sample_world and a = 0 and k = BrowseTheWeb]
    ability_to_missing [where w = sample_world and k = "UserClass ''BrowseAsAdmin'' BrowseTheWeb"
      and xs = "[0, 1]" and n = "''Bea''"] h all
  show ?thesis by simp
qed

lemma who_can_one:
  "who_can a [x] w =
     (a, store_ability a (type_of (objs w ! x)) (length (objs w))
          (w\<lparr>objs := objs w @
             [\<lparr>type_of = BrowseTheWeb, p_browser = p_browser (objs w ! x),
               p_context = p_context (objs w ! x), p_page = p_page (objs w ! x),
               p_actor = Some a\<rparr>]\<rparr>))"
  by (simp add: as_actor_eq)

lemma store_ability_simps:
  "objs (store_ability a k b w) = objs w"
  "calls (store_ability a k b w) = calls w"
  "length (actors (store_ability a k b w)) = length (actors w)"
  "a < length (actors w) \<Longrightarrow>
     abilities (actors (store_ability a k b w) ! a) = (abilities (actors w ! a))(k \<mapsto> b)"
  "a < length (actors w) \<Longrightarrow> name (actors (store_ability a k b w) ! a) = name (actors w ! a)"
  by (simp_all add: store_ability_def)

lemma who_can_one_props:
  "a < length (actors w) \<Longrightarrow> x < length (objs w) \<Longrightarrow>
     fst (who_can a [x] w) = a
     \<and> ability_to a (type_of (objs w ! x)) (snd (who_can a [x] w)) = Inr (length (objs w))
     \<and> length (objs w) \<noteq> x
     \<and> length (objs w) < length (objs (snd (who_can a [x] w)))
     \<and> p_actor (objs (snd (who_can a [x] w)) ! length (objs w)) = Some a
     \<and> p_browser (objs (snd (who_can a [x] w)) ! length (objs w)) = p_browser (objs w ! x)
     \<and> p_context (objs (snd (who_can a [x] w)) ! length (objs w)) = p_context (objs w ! x)
     \<and> p_page (objs (snd (who_can a [x] w)) ! length (objs w)) = p_page (objs w ! x)
     \<and> objs (snd (who_can a [x] w)) ! x = objs w ! x"
  by (simp add: who_can_one store_ability_simps ability_to_def has_ability_to_def nth_append
      del: who_can.simps)

text \<open>
  Claim C4.  After \<open>who_can\<close> has granted the actor \<open>a\<close> the ability object \<open>x\<close>,
  \<open>ability_to\<close> with the class of \<open>x\<close> returns an object that did not exist before
  the grant, hence not \<open>x\<close>; its \<open>_actor\<close> is \<open>a\<close> and its browser, context and page
  are those of \<open>x\<close>.  The object \<open>x\<close> is as it was, its \<open>_actor\<close> included.
\<close>

theorem who_can_binds_a_copy:
  "a < length (actors w) \<Longrightarrow> x < length (objs w) \<Longrightarrow>
     fst (who_can a [x] w) = a
     \<and> ability_to a (type_of (objs w ! x)) (snd (who_can a [x] w)) = Inr (length (objs w))
     \<and> length (objs w) \<noteq> x
     \<and> length (objs w) < length (objs (snd (who_can a [x] w)))
     \<and> p_actor (objs (snd (who_can a [x] w)) ! length (objs w)) = Some a
     \<and> p_browser (objs (snd (who_can a [x] w)) ! length (objs w)) = p_browser (objs w ! x)
     \<and> p_context (objs (snd (who_can a [x] w)) ! length (objs w)) = p_context (objs w ! x)
     \<and> p_page (objs (snd (who_can a [x] w)) ! length (objs w)) = p_page (objs w ! x)
     \<and> objs (snd (who_can a [x] w)) ! x = objs w ! x"
  by (rule who_can_one_props)

theorem who_can_binds_a_copy_witness:
  "(0::nat) < length (actors sample_world) \<and> (0::nat) < length (objs sample_world)
   \<and> ability_to 0 BrowseTheWeb (snd (who_can 0 [0] sample_world)) = Inr 3
   \<and> objs (snd (who_can 0 [0] sample_world)) ! 3 =
        \<lparr>type_of = BrowseTheWeb, p_browser = 1, p_context = Some 2, p_page = Some 3,
         p_actor = Some 0\<rparr>
   \<and> p_actor (objs (snd (who_can 0 [0] sample_world)) ! 0) = None"
proof -
  have h: "(0::nat) < length (actors sample_world)" "(0::nat) < length (objs sample_world)"
    by (simp_all add: sample_world_def)
  have "objs (snd (who_can 0 [0] sample_world)) ! 3 =
        \<lparr>type_of = BrowseTheWeb, p_browser = 1, p_context = Some 2, p_page = Some 3,
         p_actor = Some 0\<rparr>"
    by (simp add: model_defs sample_world_def)
  with who_can_binds_a_copy [OF h] h show ?thesis
    by (simp add: sample_world_def)
qed

text \<open>
  Claim C8.  Granting \<open>x1\<close> and then \<open>x2\<close>, an ability of the same class, leaves under
  that class the copy made from \<open>x2\<close>: the object created by the second grant, bound to
  the actor and carrying the handles of \<open>x2\<close>.  The table is a mapping, so each class
  has at most one entry.  Granting both in one call is the same.
\<close>

theorem later_grant_replaces:
  "a < length (actors w) \<Longrightarrow> x1 < length (objs w) \<Longrightarrow>
   x2 < length (objs (snd (who_can a [x1] w))) \<Longrightarrow>
   type_of (objs (snd (who_can a [x1] w)) ! x2) = type_of (objs w ! x1) \<Longrightarrow>
     ability_to a (type_of (objs w ! x1)) (snd (who_can a [x1] w)) = Inr (length (objs w))
     \<and> ability_to a (type_of (objs w ! x1)) (snd (who_can a [x2] (snd (who_can a [x1] w))))
         = Inr (Suc (length (objs w)))
     \<and> p_actor (objs (snd (who_can a [x2] (snd (who_can a [x1] w)))) ! Suc (length (objs w))) = Some a
     \<and> p_browser (objs (snd (who_can a [x2] (snd (who_can a [x1] w)))) ! Suc (length (objs w)))
         = p_browser (objs (snd (who_can a [x1] w)) ! x2)
     \<and> p_context (objs (snd (who_can a [x2] (snd (who_can a [x1] w)))) ! Suc (length (objs w)))
         = p_context (objs (snd (who_can a [x1] w)) ! x2)
     \<and> p_page (objs (snd (who_can a [x2] (snd (who_can a [x1] w)))) ! Suc (length (objs w)))
         = p_page (objs (snd (who_can a [x1] w)) ! x2)
     \<and> who_can a [x1, x2] w = who_can a [x2] (snd (who_can a [x1] w))"
proof -
  assume a: "a < length (actors w)" and x1: "x1 < length (objs w)"
    and x2: "x2 < length (objs (snd (who_can a [x1] w)))"
    and k: "type_of (objs (snd (who_can a [x1] w)) ! x2) = type_of (objs w ! x1)"
  let ?w1 = "snd (who_can a [x1] w)"
  have len: "length (objs ?w1) = Suc (length (objs w))" "a < length (actors ?w1)"
    using a by (simp_all add: who_can_one store_ability_simps del: who_can.simps)
  have first: "ability_to a (type_of (objs w ! x1)) ?w1 = Inr (length (objs w))"
    using who_can_one_props [OF a x1] by simp
  have second: "ability_to a (type_of (objs ?w1 ! x2)) (snd (who_can a [x2] ?w1)) = Inr (length (objs ?w1))"
    "p_actor (objs (snd (who_can a [x2] ?w1)) ! length (objs ?w1)) = Some a"
    "p_browser (objs (snd (who_can a [x2] ?w1)) ! length (objs ?w1)) = p_browser (objs ?w1 ! x2)"
    "p_context (objs (snd (who_can a [x2] ?w1)) ! length (objs ?w1)) = p_context (objs ?w1 ! x2)"
    "p_page (objs (snd (who_can a [x2] ?w1)) ! length (objs ?w1)) = p_page (objs ?w1 ! x2)"
    using who_can_one_props [OF len(2) x2] by simp_all
  have both: "who_can a [x1, x2] w = who_can a [x2] ?w1"
    by (simp add: split_beta)
  show ?thesis
    using first second both unfolding k len by simp
qed


theorem later_grant_replaces_witness:
  "(0::nat) < length (actors sample_world) \<and> (0::nat) < length (objs sample_world)
   \<and> (1::nat) < length (objs (snd (who_can 0 [0] sample_world)))
   \<and> type_of (objs (snd (who_can 0 [0] sample_world)) ! 1) = type_of (objs sample_world ! 0)
   \<and> ability_to 0 BrowseTheWeb (snd (who_can 0 [0] sample_world)) = Inr 3
   \<and> ability_to 0 BrowseTheWeb (snd (who_can 0 [1] (snd (who_can 0 [0] sample_world)))) = Inr 4
   \<and> p_page (objs (snd (who_can 0 [1] (snd (who_can 0 [0] sample_world)))) ! 4) = None
   \<and> p_page (objs (snd (who_can 0 [1] (snd (who_can 0 [0] sample_world)))) ! 3) = Some 3"
proof -
  have h: "(0::nat) < length (actors sample_world)" "(0::nat) < length (objs sample_world)"
    "(1::nat) < length (objs (snd (who_can 0 [0] sample_world)))"
    "type_of (objs (snd (who_can 0 [0] sample_world)) ! 1) = type_of (objs sample_world ! 0)"
    by (simp_all add: model_defs sample_world_def)
  have e: "p_page (objs (snd (who_can 0 [1] (snd (who_can 0 [0] sample_world)))) ! 3) = Some 3"
    "length (objs sample_world) = 3" "type_of (objs sample_world ! 0) = BrowseTheWeb"
    "p_page (objs (snd (who_can 0 [0] sample_world)) ! 1) = None"
    by (simp_all add: model_defs sample_world_def)
  from later_grant_replaces [OF h] h e show ?thesis
    by (simp add: eval_nat_numeral)
qed

text \<open>
  Claim C9.  An ability is stored under the class of the granted object itself.  When
  that class \<open>s\<close> is a proper subclass of \<open>b\<close> and the actor had nothing under \<open>b\<close>,
  the actor has the ability \<open>s\<close> but not the ability \<open>b\<close>, and \<open>ability_to\<close> with \<open>b\<close>
  raises.
\<close>

theorem lookup_by_exact_class:
  "a < length (actors w) \<Longrightarrow> x < length (objs w) \<Longrightarrow> type_of (objs w ! x) = s \<Longrightarrow>
   issubclass s b \<Longrightarrow> s \<noteq> b \<Longrightarrow> abilities (actors w ! a) b = None \<Longrightarrow>
     abilities (actors (snd (who_can a [x] w)) ! a) s = Some (length (objs w))
     \<and> has_ability_to a s (snd (who_can a [x] w))
     \<and> \<not> has_ability_to a b (snd (who_can a [x] w))
     \<and> ability_to a b (snd (who_can a [x] w)) =
           Inl (ValueError (''Actor '' @ name (actors w ! a) @ '' does not have the ability ''
                              @ class_name b))"
  by (simp add: who_can_one store_ability_simps ability_to_def has_ability_to_def
      del: who_can.simps)

theorem lookup_by_exact_class_witness:
  "(0::nat) < length (actors sample_world) \<and> (2::nat) < length (objs sample_world)
   \<and> type_of (objs sample_world ! 2) = UserClass ''BrowseAsAdmin'' BrowseTheWeb
   \<and> issubclass (UserClass ''BrowseAsAdmin'' BrowseTheWeb) BrowseTheWeb
   \<and> UserClass ''BrowseAsAdmin'' BrowseTheWeb \<noteq> BrowseTheWeb
   \<and> abilities (actors sample_world ! 0) BrowseTheWeb = None
   \<and> has_ability_to 0 (UserClass ''BrowseAsAdmin'' BrowseTheWeb) (snd (who_can 0 [2] sample_world))
   \<and> \<not> has_ability_to 0 BrowseTheWeb (snd (who_can 0 [2] sample_world))
   \<and> ability_to 0 BrowseTheWeb (snd (who_can 0 [2] sample_world)) =
         Inl (ValueError ''Actor Ana does not have the ability BrowseTheWeb'')"
proof -
  have h: "(0::nat) < length (actors sample_world)" "(2::nat) < length (objs sample_world)"
   "type_of (objs sample_world ! 2) = UserClass ''BrowseAsAdmin'' BrowseTheWeb"
   "issubclass (UserClass ''BrowseAsAdmin'' BrowseTheWeb) BrowseTheWeb"
   "UserClass ''BrowseAsAdmin'' BrowseTheWeb \<noteq> BrowseTheWeb"
   "abilities (actors sample_world ! 0) BrowseTheWeb = None"
    by (simp_all add: sample_world_def issubclass_def)
  have n: "name (actors sample_world ! 0) = ''Ana''"
    by (simp add: sample_world_def)
  from lookup_by_exact_class [OF h] h n show ?thesis
    by simp
qed

section \<open>The caches of an ability\<close>

lemma run_op_frame:
  "r \<noteq> x \<Longrightarrow> objs (run_op drv r op w) ! x = objs w ! x"
  by (cases op)
    (auto simp: context_prop_def page_prop_def new_page_of_def close_page_def close_context_def
      close_browser_def invoke_def upd_obj_def split: option.splits sum.splits prod.splits)

lemma run_ops_frame:
  "r \<noteq> x \<Longrightarrow> objs (run_ops drv r ops w) ! x = objs w ! x"
  by (induction ops arbitrary: w) (simp_all add: run_op_frame)

text \<open>
  Claim C10.  \<open>as_actor\<close> makes a new object and copies the browser, context and page
  of the original into it.  Afterwards no sequence of operations on the copy (reading
  \<open>context\<close> or \<open>page\<close>, \<open>new_page\<close>, \<open>close_page\<close>, \<open>close_context\<close>,
  \<open>close_browser\<close>) changes the original object, and none on the original changes the
  copy.
\<close>

theorem binding_isolates_caches:
  "x < length (objs w) \<Longrightarrow>
     fst (as_actor x a w) \<noteq> x
     \<and> p_browser (objs (snd (as_actor x a w)) ! fst (as_actor x a w)) = p_browser (objs w ! x)
     \<and> p_context (objs (snd (as_actor x a w)) ! fst (as_actor x a w)) = p_context (objs w ! x)
     \<and> p_page (objs (snd (as_actor x a w)) ! fst (as_actor x a w)) = p_page (objs w ! x)
     \<and> objs (snd (as_actor x a w)) ! x = objs w ! x
     \<and> objs (run_ops drv (fst (as_actor x a w)) ops (snd (as_actor x a w))) ! x = objs w ! x
     \<and> objs (run_ops drv x ops (snd (as_actor x a w))) ! fst (as_actor x a w)
         = objs (snd (as_actor x a w)) ! fst (as_actor x a w)"
proof -
  assume x: "x < length (objs w)"
  then have ne: "fst (as_actor x a w) \<noteq> x" "x \<noteq> fst (as_actor x a w)"
    by (simp_all add: as_actor_eq)
  have same: "objs (snd (as_actor x a w)) ! x = objs w ! x"
    using x by (simp add: as_actor_eq nth_append)
  show ?thesis
    using x same by (simp add: run_ops_frame [OF ne(1)] run_ops_frame [OF ne(2)])
      (simp add: as_actor_eq)
qed


theorem binding_isolates_caches_witness:
  "(0::nat) < length (objs sample_world)
   \<and> fst (as_actor 0 0 sample_world) = 3
   \<and> objs (run_ops sample_driver 3 [DoCloseContext, GetPage] (snd (as_actor 0 0 sample_world))) ! 3
       = \<lparr>type_of = BrowseTheWeb, p_browser = 1, p_context = Some 101, p_page = Some 102,
          p_actor = Some 0\<rparr>
   \<and> objs (run_ops sample_driver 3 [DoCloseContext, GetPage] (snd (as_actor 0 0 sample_world))) ! 0
       = \<lparr>type_of = BrowseTheWeb, p_browser = 1, p_context = Some 2, p_page = Some 3,
          p_actor = None\<rparr>
   \<and> objs (run_ops sample_driver 0 [DoClosePage, GetPage] (snd (as_actor 0 0 sample_world))) ! 0
       = \<lparr>type_of = BrowseTheWeb, p_browser = 1, p_context = Some 2, p_page = Some 101,
          p_actor = None\<rparr>
   \<and> objs (run_ops sample_driver 0 [DoClosePage, GetPage] (snd (as_actor 0 0 sample_world))) ! 3
       = \<lparr>type_of = BrowseTheWeb, p_browser = 1, p_context = Some 2, p_page = Some 3,
          p_actor = Some 0\<rparr>"
proof -
  have h: "(0::nat) < length (objs sample_world)"
    by (simp add: sample_world_def)
  have e: "fst (as_actor 0 0 sample_world) = 3"
    "objs sample_world ! 0 = \<lparr>type_of = BrowseTheWeb, p_browser = 1, p_context = Some 2,
        p_page = Some 3, p_actor = None\<rparr>"
    "objs (snd (as_actor 0 0 sample_world)) ! 3 = \<lparr>type_of = BrowseTheWeb, p_browser = 1,
        p_context = Some 2, p_page = Some 3, p_actor = Some 0\<rparr>"
    by (simp_all add: as_actor_eq sample_world_def)
  have r: "objs (run_ops sample_driver 3 [DoCloseContext, GetPage] (snd (as_actor 0 0 sample_world))) ! 3
       = \<lparr>type_of = BrowseTheWeb, p_browser = 1, p_context = Some 101, p_page = Some 102,
          p_actor = Some 0\<rparr>"
    by (simp add: as_actor_eq sample_world_def close_context_def page_prop_def context_prop_def
        invoke_def upd_obj_def sample_driver_def)
  have o: "objs (run_ops sample_driver 0 [DoClosePage, GetPage] (snd (as_actor 0 0 sample_world))) ! 0
       = \<lparr>type_of = BrowseTheWeb, p_browser = 1, p_context = Some 2, p_page = Some 101,
          p_actor = None\<rparr>"
    by (simp add: as_actor_eq sample_world_def close_page_def page_prop_def context_prop_def
        invoke_def upd_obj_def sample_driver_def)
  from binding_isolates_caches [OF h, of 0 sample_driver "[DoCloseContext, GetPage]"]
    binding_isolates_caches [OF h, of 0 sample_driver "[DoClosePage, GetPage]"] h e r o
  show ?thesis by simp
qed

lemma close_context_cached:
  "p_context (objs w ! x) = Some c \<Longrightarrow>
     close_context drv x w =
       (case close_of_context drv (calls w) c of
          Inl e \<Rightarrow> (Inl e, w\<lparr>calls := calls w @ [CloseContext c]\<rparr>)
        | Inr u \<Rightarrow> (Inr (),
            upd_obj x (\<lambda>ob. ob\<lparr>p_page := None\<rparr>)
              (upd_obj x (\<lambda>ob. ob\<lparr>p_context := None\<rparr>) (w\<lparr>calls := calls w @ [CloseContext c]\<rparr>))))"
  by (simp add: close_context_def invoke_def split: sum.splits)

lemma page_prop_uncached:
  "x < length (objs w) \<Longrightarrow> p_context (objs w ! x) = None \<Longrightarrow> p_page (objs w ! x) = None \<Longrightarrow>
     fst (page_prop drv x w) =
       (case new_context drv (calls w) (p_browser (objs w ! x)) of
          Inl e \<Rightarrow> Inl e
        | Inr c \<Rightarrow> new_page drv (calls w @ [NewContext (p_browser (objs w ! x))]) c)
     \<and> (new_context drv (calls w) (p_browser (objs w ! x)) = Inr c \<longrightarrow>
          new_page drv (calls w @ [NewContext (p_browser (objs w ! x))]) c = Inr p \<longrightarrow>
            calls (snd (page_prop drv x w)) =
              calls w @ [NewContext (p_browser (objs w ! x)), NewPage c]
            \<and> p_context (objs (snd (page_prop drv x w)) ! x) = Some c
            \<and> p_page (objs (snd (page_prop drv x w)) ! x) = Some p)"
  by (auto simp: page_prop_def context_prop_def invoke_def upd_obj_def split: sum.splits)

text \<open>
  Claim C5.  On an ability whose context and page are cached, a \<open>close_context\<close> that
  returns has closed the context and cleared both cached fields.  The next read of
  \<open>page\<close> does not answer from the cache: it asks the driver for a new context of the
  browser and then for a new page of that context, and its result is the driver's
  answer; when both are created they are what the ability caches from then on.
\<close>

theorem close_context_clears_page:
  "x < length (objs w) \<Longrightarrow> p_context (objs w ! x) = Some c \<Longrightarrow> p_page (objs w ! x) = Some p \<Longrightarrow>
   fst (close_context drv x w) = Inr () \<Longrightarrow>
     p_context (objs (snd (close_context drv x w)) ! x) = None
     \<and> p_page (objs (snd (close_context drv x w)) ! x) = None
     \<and> calls (snd (close_context drv x w)) = calls w @ [CloseContext c]
     \<and> fst (page_prop drv x (snd (close_context drv x w))) =
         (case new_context drv (calls w @ [CloseContext c]) (p_browser (objs w ! x)) of
            Inl e \<Rightarrow> Inl e
          | Inr c' \<Rightarrow>
              new_page drv (calls w @ [CloseContext c, NewContext (p_browser (objs w ! x))]) c')
     \<and> (new_context drv (calls w @ [CloseContext c]) (p_browser (objs w ! x)) = Inr c' \<longrightarrow>
        new_page drv (calls w @ [CloseContext c, NewContext (p_browser (objs w ! x))]) c' = Inr p' \<longrightarrow>
          fst (page_prop drv x (snd (close_context drv x w))) = Inr p'
          \<and> calls (snd (page_prop drv x (snd (close_context drv x w)))) =
              calls w @ [CloseContext c, NewContext (p_browser (objs w ! x)), NewPage c']
          \<and> p_context (objs (snd (page_prop drv x (snd (close_context drv x w)))) ! x) = Some c'
          \<and> p_page (objs (snd (page_prop drv x (snd (close_context drv x w)))) ! x) = Some p')"
proof -
  assume x: "x < length (objs w)" and c: "p_context (objs w ! x) = Some c"
    and p: "p_page (objs w ! x) = Some p" and ok: "fst (close_context drv x w) = Inr ()"
  let ?w1 = "snd (close_context drv x w)"
  from ok have w1: "?w1 = upd_obj x (\<lambda>ob. ob\<lparr>p_page := None\<rparr>)
      (upd_obj x (\<lambda>ob. ob\<lparr>p_context := None\<rparr>) (w\<lparr>calls := calls w @ [CloseContext c]\<rparr>))"
    by (simp add: close_context_cached [OF c] split: sum.splits)
  have cleared: "p_context (objs ?w1 ! x) = None" "p_page (objs ?w1 ! x) = None"
    "calls ?w1 = calls w @ [CloseContext c]" "x < length (objs ?w1)"
    "p_browser (objs ?w1 ! x) = p_browser (objs w ! x)"
    unfolding w1 using x by (simp_all add: upd_obj_def)
  from page_prop_uncached [OF cleared(4) cleared(1) cleared(2), of drv c' p'] cleared
  show ?thesis by (simp cong: sum.case_cong)
qed

theorem close_context_clears_page_witness:
  "(0::nat) < length (objs sample_world) \<and> p_context (objs sample_world ! 0) = Some 2
   \<and> p_page (objs sample_world ! 0) = Some 3
   \<and> fst (close_context sample_driver 0 sample_world) = Inr ()
   \<and> p_context (objs (snd (close_context sample_driver 0 sample_world)) ! 0) = None
   \<and> p_page (objs (snd (close_context sample_driver 0 sample_world)) ! 0) = None
   \<and> fst (page_prop sample_driver 0 (snd (close_context sample_driver 0 sample_world))) = Inr 102
   \<and> calls (snd (page_prop sample_driver 0 (snd (close_context sample_driver 0 sample_world))))
       = [CloseContext 2, NewContext 1, NewPage 101]"
proof -
  have h: "(0::nat) < length (objs sample_world)" "p_context (objs sample_world ! 0) = Some 2"
    "p_page (objs sample_world ! 0) = Some 3"
    "fst (close_context sample_driver 0 sample_world) = Inr ()"
    by (simp_all add: sample_world_def close_context_def invoke_def sample_driver_def)
  have d: "new_context sample_driver (calls sample_world @ [CloseContext 2])
             (p_browser (objs sample_world ! 0)) = Inr 101"
    "new_page sample_driver (calls sample_world @ [CloseContext 2,
             NewContext (p_browser (objs sample_world ! 0))]) 101 = Inr 102"
    "calls sample_world = []" "p_browser (objs sample_world ! 0) = 1"
    by (simp_all add: sample_world_def sample_driver_def)
  from close_context_clears_page [OF h, of 101 102] h d show ?thesis
    by simp
qed

section \<open>Questions and interactions\<close>

lemma Visibility_with_page:
  "ability_to a BrowseTheWeb w = Inr r \<Longrightarrow> fst (page_prop drv r w) = Inr pg \<Longrightarrow>
     Visibility_answered_by drv loc a w =
       (case is_visible drv (calls (snd (page_prop drv r w))) pg loc of
          Inl e \<Rightarrow> Inr (PBool False)
        | Inr b \<Rightarrow> Inr (PBool b),
        (snd (page_prop drv r w))
          \<lparr>calls := calls (snd (page_prop drv r w)) @ [IsVisible pg loc]\<rparr>)"
  by (cases "page_prop drv r w")
    (simp add: Visibility_answered_by_def invoke_def split: sum.splits)

lemma Presence_with_page:
  "ability_to a BrowseTheWeb w = Inr r \<Longrightarrow> fst (page_prop drv r w) = Inr pg \<Longrightarrow>
     Presence_answered_by drv loc a w =
       (case query_selector drv (calls (snd (page_prop drv r w))) pg loc of
          Inl e \<Rightarrow> Inr (PBool False)
        | Inr element \<Rightarrow> Inr (PBool (element \<noteq> None)),
        (snd (page_prop drv r w))
          \<lparr>calls := calls (snd (page_prop drv r w)) @ [QuerySelector pg loc]\<rparr>)"
  by (cases "page_prop drv r w")
    (simp add: Presence_answered_by_def invoke_def split: sum.splits)

text \<open>
  Claim C3, as the code has it.  For an actor that holds the \<open>BrowseTheWeb\<close> ability
  and whose page is at hand (cached, or created on demand without an error), the
  Visibility and Presence questions never raise: the answer is the boolean of the
  driver's check, and \<open>False\<close> when the check raises.  The lookup of the ability and
  the read of \<open>page\<close> stand before the \<^verbatim>\<open>try\<close>: a missing ability, or an error of the
  driver while the context or page is created, is raised to the caller.
\<close>

theorem probes_catch_check_errors:
  "(ability_to a BrowseTheWeb w = Inr r \<longrightarrow> fst (page_prop drv r w) = Inr pg \<longrightarrow>
      fst (Visibility_answered_by drv loc a w) =
        Inr (PBool (is_visible drv (calls (snd (page_prop drv r w))) pg loc = Inr True))
      \<and> fst (Presence_answered_by drv loc a w) =
        Inr (PBool (\<exists>h. query_selector drv (calls (snd (page_prop drv r w))) pg loc = Inr (Some h)))
      \<and> (is_visible drv (calls (snd (page_prop drv r w))) pg loc = Inl e \<longrightarrow>
           fst (Visibility_answered_by drv loc a w) = Inr (PBool False))
      \<and> (query_selector drv (calls (snd (page_prop drv r w))) pg loc = Inl e \<longrightarrow>
           fst (Presence_answered_by drv loc a w) = Inr (PBool False)))
   \<and> (ability_to a BrowseTheWeb w = Inl e \<longrightarrow>
        Visibility_answered_by drv loc a w = (Inl e, w)
        \<and> Presence_answered_by drv loc a w = (Inl e, w))
   \<and> (ability_to a BrowseTheWeb w = Inr r \<longrightarrow> fst (page_prop drv r w) = Inl e \<longrightarrow>
        Visibility_answered_by drv loc a w = (Inl e, snd (page_prop drv r w))
        \<and> Presence_answered_by drv loc a w = (Inl e, snd (page_prop drv r w)))"
proof -
  have ok: "fst (Visibility_answered_by drv loc a w) =
        Inr (PBool (is_visible drv (calls (snd (page_prop drv r w))) pg loc = Inr True))
      \<and> fst (Presence_answered_by drv loc a w) =
        Inr (PBool (\<exists>h. query_selector drv (calls (snd (page_prop drv r w))) pg loc = Inr (Some h)))
      \<and> (is_visible drv (calls (snd (page_prop drv r w))) pg loc = Inl e \<longrightarrow>
           fst (Visibility_answered_by drv loc a w) = Inr (PBool False))
      \<and> (query_selector drv (calls (snd (page_prop drv r w))) pg loc = Inl e \<longrightarrow>
           fst (Presence_answered_by drv loc a w) = Inr (PBool False))"
    if h: "ability_to a BrowseTheWeb w = Inr r" "fst (page_prop drv r w) = Inr pg"
    by (auto simp: Visibility_with_page [OF h] Presence_with_page [OF h] split: sum.splits)
  have missing: "Visibility_answered_by drv loc a w = (Inl e, w)
        \<and> Presence_answered_by drv loc a w = (Inl e, w)"
    if "ability_to a BrowseTheWeb w = Inl e"
    using that by (simp add: Visibility_answered_by_def Presence_answered_by_def)
  have nopage: "Visibility_answered_by drv loc a w = (Inl e, snd (page_prop drv r w))
        \<and> Presence_answered_by drv loc a w = (Inl e, snd (page_prop drv r w))"
    if "ability_to a BrowseTheWeb w = Inr r" "fst (page_prop drv r w) = Inl e"
    using that by (cases "page_prop drv r w")
      (simp add: Visibility_answered_by_def Presence_answered_by_def)
  from ok missing nopage show ?thesis by blast
qed

text \<open>
  The questions do raise: for an actor without the ability, and for a driver that
  cannot create the context of an ability that has no page yet.
\<close>

theorem probes_raise_counterexample:
  "fst (Visibility_answered_by sample_driver ''#error'' 0 sample_world)
     = Inl (ValueError ''Actor Ana does not have the ability BrowseTheWeb'')
   \<and> fst (Presence_answered_by sample_driver ''#error'' 0 sample_world)
     = Inl (ValueError ''Actor Ana does not have the ability BrowseTheWeb'')
   \<and> fst (Visibility_answered_by dead_driver ''#error'' 0 lazy_world)
     = Inl (DriverError ''Browser closed'')
   \<and> fst (Presence_answered_by dead_driver ''#error'' 0 lazy_world)
     = Inl (DriverError ''Browser closed'')"
  by (simp add: Visibility_answered_by_def Presence_answered_by_def model_defs sample_defs
      lazy_world_def dead_driver_def)

theorem probes_catch_check_errors_witness:
  "ability_to 0 BrowseTheWeb granted_world = Inr 3
   \<and> fst (page_prop sample_driver 3 granted_world) = Inr 3
   \<and> is_visible sample_driver (calls (snd (page_prop sample_driver 3 granted_world))) 3 ''#gone''
       = Inl (DriverError ''Frame detached'')
   \<and> query_selector sample_driver (calls (snd (page_prop sample_driver 3 granted_world))) 3 ''#gone''
       = Inl (DriverError ''Frame detached'')
   \<and> fst (Visibility_answered_by sample_driver ''#gone'' 0 granted_world) = Inr (PBool False)
   \<and> fst (Presence_answered_by sample_driver ''#gone'' 0 granted_world) = Inr (PBool False)
   \<and> ability_to 0 BrowseTheWeb sample_world
       = Inl (ValueError ''Actor Ana does not have the ability BrowseTheWeb'')
   \<and> Visibility_answered_by sample_driver ''#gone'' 0 sample_world
       = (Inl (ValueError ''Actor Ana does not have the ability BrowseTheWeb''), sample_world)
   \<and> ability_to 0 BrowseTheWeb lazy_world = Inr 3
   \<and> fst (page_prop dead_driver 3 lazy_world) = Inl (DriverError ''Browser closed'')
   \<and> fst (Presence_answered_by dead_driver ''#gone'' 0 lazy_world)
       = Inl (DriverError ''Browser closed'')"
proof -
  have h: "ability_to 0 BrowseTheWeb granted_world = Inr 3"
    "fst (page_prop sample_driver 3 granted_world) = Inr 3"
    "is_visible sample_driver (calls (snd (page_prop sample_driver 3 granted_world))) 3 ''#gone''
       = Inl (DriverError ''Frame detached'')"
    "query_selector sample_driver (calls (snd (page_prop sample_driver 3 granted_world))) 3 ''#gone''
       = Inl (DriverError ''Frame detached'')"
    "ability_to 0 BrowseTheWeb sample_world
       = Inl (ValueError ''Actor Ana does not have the ability BrowseTheWeb'')"
    "ability_to 0 BrowseTheWeb lazy_world = Inr 3"
    "fst (page_prop dead_driver 3 lazy_world) = Inl (DriverError ''Browser closed'')"
    by (simp_all add: model_defs sample_defs lazy_world_def dead_driver_def)
  from probes_catch_check_errors [of 0 granted_world 3 sample_driver 3 "''#gone''"
      "DriverError ''Frame detached''"]
    probes_catch_check_errors [of 0 sample_world 3 sample_driver 3 "''#gone''"
      "ValueError ''Actor Ana does not have the ability BrowseTheWeb''"]
    probes_catch_check_errors [of 0 lazy_world 3 dead_driver 3 "''#gone''"
      "DriverError ''Browser closed''"] h
  show ?thesis by simp
qed

lemma Text_with_page:
  "ability_to a BrowseTheWeb w = Inr r \<Longrightarrow> fst (page_prop drv r w) = Inr pg \<Longrightarrow>
     Text_answered_by drv loc a w =
       (case wait_for_selector drv (calls (snd (page_prop drv r w))) pg loc ''visible'' of
          Inl e \<Rightarrow>
            (Inl e, (snd (page_prop drv r w))
               \<lparr>calls := calls (snd (page_prop drv r w)) @ [WaitForSelector pg loc ''visible'']\<rparr>)
        | Inr u \<Rightarrow>
            (case text_content drv
                    (calls (snd (page_prop drv r w)) @ [WaitForSelector pg loc ''visible'']) pg loc of
               Inl e \<Rightarrow> Inl e
             | Inr t \<Rightarrow> Inr (py_or (text_value t) (PStr '''')),
             (snd (page_prop drv r w))
               \<lparr>calls := calls (snd (page_prop drv r w)) @
                   [WaitForSelector pg loc ''visible'', TextContent pg loc]\<rparr>))"
  by (cases "page_prop drv r w")
    (simp add: Text_answered_by_def invoke_def split: sum.splits)

lemma py_or_text_value:
  "py_or (text_value t) (PStr '''') = PStr (case t of None \<Rightarrow> '''' | Some s \<Rightarrow> s)"
  by (cases t) (simp_all add: py_or_def text_value_def)

lemma Text_never_None: "fst (Text_answered_by drv loc a w) \<noteq> Inr PNone"
  by (simp add: Text_answered_by_def invoke_def py_or_text_value
      split: sum.splits prod.splits)

text \<open>
  Claim C6.  For an actor with the browsing ability and a page, the Text question first
  waits for the element to be visible; when the wait raises, that error is the outcome
  and the text is not read.  When the wait returns, the text is read; a text \<open>s\<close> is
  answered as \<open>s\<close> and a missing text as the empty string.  The answer is never \<open>None\<close>.
\<close>

theorem Text_waits_then_reads:
  "fst (Text_answered_by drv loc a w) \<noteq> Inr PNone
   \<and> (ability_to a BrowseTheWeb w = Inr r \<longrightarrow> fst (page_prop drv r w) = Inr pg \<longrightarrow>
        (wait_for_selector drv (calls (snd (page_prop drv r w))) pg loc ''visible'' = Inl e \<longrightarrow>
           fst (Text_answered_by drv loc a w) = Inl e
           \<and> calls (snd (Text_answered_by drv loc a w)) =
               calls (snd (page_prop drv r w)) @ [WaitForSelector pg loc ''visible''])
        \<and> (wait_for_selector drv (calls (snd (page_prop drv r w))) pg loc ''visible'' = Inr () \<longrightarrow>
             calls (snd (Text_answered_by drv loc a w)) =
               calls (snd (page_prop drv r w)) @
                 [WaitForSelector pg loc ''visible'', TextContent pg loc]
             \<and> (text_content drv
                    (calls (snd (page_prop drv r w)) @ [WaitForSelector pg loc ''visible'']) pg loc
                  = Inr (Some s) \<longrightarrow>
                  fst (Text_answered_by drv loc a w) = Inr (PStr s))
             \<and> (text_content drv
                    (calls (snd (page_prop drv r w)) @ [WaitForSelector pg loc ''visible'']) pg loc
                  = Inr None \<longrightarrow>
                  fst (Text_answered_by drv loc a w) = Inr (PStr ''''))))"
proof -
  have "fst (Text_answered_by drv loc a w) = Inl e
           \<and> calls (snd (Text_answered_by drv loc a w)) =
               calls (snd (page_prop drv r w)) @ [WaitForSelector pg loc ''visible'']"
    if h: "ability_to a BrowseTheWeb w = Inr r" "fst (page_prop drv r w) = Inr pg"
      and "wait_for_selector drv (calls (snd (page_prop drv r w))) pg loc ''visible'' = Inl e"
    using that(3) by (simp add: Text_with_page [OF h])
  moreover have "calls (snd (Text_answered_by drv loc a w)) =
               calls (snd (page_prop drv r w)) @
                 [WaitForSelector pg loc ''visible'', TextContent pg loc]
             \<and> (text_content drv
                    (calls (snd (page_prop drv r w)) @ [WaitForSelector pg loc ''visible'']) pg loc
                  = Inr (Some s) \<longrightarrow>
                  fst (Text_answered_by drv loc a w) = Inr (PStr s))
             \<and> (text_content drv
                    (calls (snd (page_prop drv r w)) @ [WaitForSelector pg loc ''visible'']) pg loc
                  = Inr None \<longrightarrow>
                  fst (Text_answered_by drv loc a w) = Inr (PStr ''''))"
    if h: "ability_to a BrowseTheWeb w = Inr r" "fst (page_prop drv r w) = Inr pg"
      and "wait_for_selector drv (calls (snd (page_prop drv r w))) pg loc ''visible'' = Inr ()"
    using that(3) by (simp add: Text_with_page [OF h] py_or_text_value)
  ultimately show ?thesis
    using Text_never_None [of drv loc a w] by blast
qed

theorem Text_waits_then_reads_witness:
  "ability_to 0 BrowseTheWeb granted_world = Inr 3
   \<and> fst (page_prop sample_driver 3 granted_world) = Inr 3
   \<and> wait_for_selector sample_driver (calls (snd (page_prop sample_driver 3 granted_world))) 3
        ''#empty'' ''visible'' = Inr ()
   \<and> text_content sample_driver
        (calls (snd (page_prop sample_driver 3 granted_world)) @
           [WaitForSelector 3 ''#empty'' ''visible'']) 3 ''#empty'' = Inr None
   \<and> fst (Text_answered_by sample_driver ''#empty'' 0 granted_world) = Inr (PStr '''')
   \<and> calls (snd (Text_answered_by sample_driver ''#empty'' 0 granted_world)) =
        [WaitForSelector 3 ''#empty'' ''visible'', TextContent 3 ''#empty'']
   \<and> wait_for_selector sample_driver (calls (snd (page_prop sample_driver 3 granted_world))) 3
        ''#gone'' ''visible'' = Inl (DriverError ''Timeout'')
   \<and> fst (Text_answered_by sample_driver ''#gone'' 0 granted_world) = Inl (DriverError ''Timeout'')
   \<and> calls (snd (Text_answered_by sample_driver ''#gone'' 0 granted_world)) =
        [WaitForSelector 3 ''#gone'' ''visible'']
   \<and> wait_for_selector sample_driver (calls (snd (page_prop sample_driver 3 granted_world))) 3
        ''#success'' ''visible'' = Inr ()
   \<and> text_content sample_driver
        (calls (snd (page_prop sample_driver 3 granted_world)) @
           [WaitForSelector 3 ''#success'' ''visible'']) 3 ''#success'' = Inr (Some ''Congratulations'')
   \<and> fst (Text_answered_by sample_driver ''#success'' 0 granted_world)
        = Inr (PStr ''Congratulations'')"
proof -
  have h: "ability_to 0 BrowseTheWeb granted_world = Inr 3"
    "fst (page_prop sample_driver 3 granted_world) = Inr 3"
    "wait_for_selector sample_driver (calls (snd (page_prop sample_driver 3 granted_world))) 3
        ''#empty'' ''visible'' = Inr ()"
    "text_content sample_driver
        (calls (snd (page_prop sample_driver 3 granted_world)) @
           [WaitForSelector 3 ''#empty'' ''visible'']) 3 ''#empty'' = Inr None"
    "wait_for_selector sample_driver (calls (snd (page_prop sample_driver 3 granted_world))) 3
        ''#gone'' ''visible'' = Inl (DriverError ''Timeout'')"
    "wait_for_selector sample_driver (calls (snd (page_prop sample_driver 3 granted_world))) 3
        ''#success'' ''visible'' = Inr ()"
    "text_content sample_driver
        (calls (snd (page_prop sample_driver 3 granted_world)) @
           [WaitForSelector 3 ''#success'' ''visible'']) 3 ''#success'' = Inr (Some ''Congratulations'')"
    "calls (snd (page_prop sample_driver 3 granted_world)) = []"
    by (simp_all add: model_defs sample_defs)
  from Text_waits_then_reads [of sample_driver "''#empty''" 0 granted_world 3 3
      "DriverError ''Timeout''" "''''"]
    Text_waits_then_reads [of sample_driver "''#gone''" 0 granted_world 3 3
      "DriverError ''Timeout''" "''''"]
    Text_waits_then_reads [of sample_driver "''#success''" 0 granted_world 3 3
      "DriverError ''Timeout''" "''Congratulations''"] h
  show ?thesis by simp
qed

lemma Type_with_page:
  "ability_to a BrowseTheWeb w = Inr r \<Longrightarrow> fst (page_prop drv r w) = Inr pg \<Longrightarrow>
     Type_perform_as drv self a w =
       (case wait_for_selector drv (calls (snd (page_prop drv r w))) pg (type_locator self)
               ''visible'' of
          Inl e \<Rightarrow>
            (Inl e, (snd (page_prop drv r w))
               \<lparr>calls := calls (snd (page_prop drv r w)) @
                   [WaitForSelector pg (type_locator self) ''visible'']\<rparr>)
        | Inr u \<Rightarrow>
            (if truthy (dict_get (type_options self) ''clear'' (PBool True)) then
               (case fill drv (calls (snd (page_prop drv r w)) @
                        [WaitForSelector pg (type_locator self) ''visible''])
                       pg (type_locator self) '''' of
                  Inl e \<Rightarrow>
                    (Inl e, (snd (page_prop drv r w))
                       \<lparr>calls := calls (snd (page_prop drv r w)) @
                           [WaitForSelector pg (type_locator self) ''visible'',
                            Fill pg (type_locator self) '''']\<rparr>)
                | Inr u \<Rightarrow>
                    (case type_keys drv (calls (snd (page_prop drv r w)) @
                             [WaitForSelector pg (type_locator self) ''visible'',
                              Fill pg (type_locator self) ''''])
                            pg (type_locator self) (type_text self)
                            (passed_options (type_options self)) of
                       Inl e \<Rightarrow> Inl e
                     | Inr u \<Rightarrow> Inr PNone,
                     (snd (page_prop drv r w))
                       \<lparr>calls := calls (snd (page_prop drv r w)) @
                           [WaitForSelector pg (type_locator self) ''visible'',
                            Fill pg (type_locator self) '''',
                            TypeText pg (type_locator self) (type_text self)
                              (passed_options (type_options self))]\<rparr>))
             else
               (case type_keys drv (calls (snd (page_prop drv r w)) @
                        [WaitForSelector pg (type_locator self) ''visible''])
                       pg (type_locator self) (type_text self)
                       (passed_options (type_options self)) of
                  Inl e \<Rightarrow> Inl e
                | Inr u \<Rightarrow> Inr PNone,
                (snd (page_prop drv r w))
                  \<lparr>calls := calls (snd (page_prop drv r w)) @
                      [WaitForSelector pg (type_locator self) ''visible'',
                       TypeText pg (type_locator self) (type_text self)
                         (passed_options (type_options self))]\<rparr>)))"
  by (cases "page_prop drv r w")
    (simp add: Type_perform_as_def invoke_def split: sum.splits)

lemma passed_options_lookup:
  "map_of (passed_options d) k = (if k = ''clear'' then None else map_of d k)"
  unfolding passed_options_def by (induction d) auto

lemma passed_options_no_clear: "''clear'' \<notin> fst ` set (passed_options d)"
  by (auto simp: passed_options_def)

text \<open>
  Claim C7.  For an actor with the browsing ability and a page, \<open>Type.perform_as\<close>
  first waits for the element to be visible; a failing wait ends the interaction with
  nothing filled or typed.  Then, when the option \<open>clear\<close> is truthy (as it is when the
  option is absent), the element is filled with the empty string, and after that the
  text is typed with the driver's \<open>type\<close>; when \<open>clear\<close> is falsy the text is typed
  right after the wait.  The keyword arguments of that call are the options without
  \<open>clear\<close>: every other key has the value it has in the options.
\<close>

theorem Type_waits_clears_types:
  "(ability_to a BrowseTheWeb w = Inr r \<longrightarrow> fst (page_prop drv r w) = Inr pg \<longrightarrow>
      (wait_for_selector drv (calls (snd (page_prop drv r w))) pg (type_locator self) ''visible''
         = Inl e \<longrightarrow>
         Type_perform_as drv self a w =
           (Inl e, (snd (page_prop drv r w))
              \<lparr>calls := calls (snd (page_prop drv r w)) @
                  [WaitForSelector pg (type_locator self) ''visible'']\<rparr>))
      \<and> (wait_for_selector drv (calls (snd (page_prop drv r w))) pg (type_locator self) ''visible''
           = Inr () \<longrightarrow>
          (truthy (dict_get (type_options self) ''clear'' (PBool True)) \<longrightarrow>
             (fill drv (calls (snd (page_prop drv r w)) @
                   [WaitForSelector pg (type_locator self) ''visible''])
                 pg (type_locator self) '''' = Inl e \<longrightarrow>
                Type_perform_as drv self a w =
                  (Inl e, (snd (page_prop drv r w))
                     \<lparr>calls := calls (snd (page_prop drv r w)) @
                         [WaitForSelector pg (type_locator self) ''visible'',
                          Fill pg (type_locator self) '''']\<rparr>))
             \<and> (fill drv (calls (snd (page_prop drv r w)) @
                   [WaitForSelector pg (type_locator self) ''visible''])
                 pg (type_locator self) '''' = Inr () \<longrightarrow>
                calls (snd (Type_perform_as drv self a w)) =
                  calls (snd (page_prop drv r w)) @
                    [WaitForSelector pg (type_locator self) ''visible'',
                     Fill pg (type_locator self) '''',
                     TypeText pg (type_locator self) (type_text self)
                       (passed_options (type_options self))]))
          \<and> (\<not> truthy (dict_get (type_options self) ''clear'' (PBool True)) \<longrightarrow>
               calls (snd (Type_perform_as drv self a w)) =
                 calls (snd (page_prop drv r w)) @
                   [WaitForSelector pg (type_locator self) ''visible'',
                    TypeText pg (type_locator self) (type_text self)
                      (passed_options (type_options self))])))
   \<and> (map_of (type_options self) ''clear'' = None \<longrightarrow>
        truthy (dict_get (type_options self) ''clear'' (PBool True)))
   \<and> (map_of (type_options self) ''clear'' = Some v \<longrightarrow>
        truthy (dict_get (type_options self) ''clear'' (PBool True)) = truthy v)
   \<and> map_of (passed_options (type_options self)) ''clear'' = None
   \<and> ''clear'' \<notin> fst ` set (passed_options (type_options self))
   \<and> (k \<noteq> ''clear'' \<longrightarrow>
        map_of (passed_options (type_options self)) k = map_of (type_options self) k)"
proof -
  have opts: "(map_of (type_options self) ''clear'' = None \<longrightarrow>
        truthy (dict_get (type_options self) ''clear'' (PBool True)))
   \<and> (map_of (type_options self) ''clear'' = Some v \<longrightarrow>
        truthy (dict_get (type_options self) ''clear'' (PBool True)) = truthy v)
   \<and> map_of (passed_options (type_options self)) ''clear'' = None
   \<and> ''clear'' \<notin> fst ` set (passed_options (type_options self))
   \<and> (k \<noteq> ''clear'' \<longrightarrow>
        map_of (passed_options (type_options self)) k = map_of (type_options self) k)"
    using passed_options_no_clear [of "type_options self"]
    by (simp add: passed_options_lookup dict_get_def)
  have run: "(wait_for_selector drv (calls (snd (page_prop drv r w))) pg (type_locator self) ''visible''
         = Inl e \<longrightarrow>
         Type_perform_as drv self a w =
           (Inl e, (snd (page_prop drv r w))
              \<lparr>calls := calls (snd (page_prop drv r w)) @
                  [WaitForSelector pg (type_locator self) ''visible'']\<rparr>))
      \<and> (wait_for_selector drv (calls (snd (page_prop drv r w))) pg (type_locator self) ''visible''
           = Inr () \<longrightarrow>
          (truthy (dict_get (type_options self) ''clear'' (PBool True)) \<longrightarrow>
             (fill drv (calls (snd (page_prop drv r w)) @
                   [WaitForSelector pg (type_locator self) ''visible''])
                 pg (type_locator self) '''' = Inl e \<longrightarrow>
                Type_perform_as drv self a w =
                  (Inl e, (snd (page_prop drv r w))
                     \<lparr>calls := calls (snd (page_prop drv r w)) @
                         [WaitForSelector pg (type_locator self) ''visible'',
                          Fill pg (type_locator self) '''']\<rparr>))
             \<and> (fill drv (calls (snd (page_prop drv r w)) @
                   [WaitForSelector pg (type_locator self) ''visible''])
                 pg (type_locator self) '''' = Inr () \<longrightarrow>
                calls (snd (Type_perform_as drv self a w)) =
                  calls (snd (page_prop drv r w)) @
                    [WaitForSelector pg (type_locator self) ''visible'',
                     Fill pg (type_locator self) '''',
                     TypeText pg (type_locator self) (type_text self)
                       (passed_options (type_options self))]))
          \<and> (\<not> truthy (dict_get (type_options self) ''clear'' (PBool True)) \<longrightarrow>
               calls (snd (Type_perform_as drv self a w)) =
                 calls (snd (page_prop drv r w)) @
                   [WaitForSelector pg (type_locator self) ''visible'',
                    TypeText pg (type_locator self) (type_text self)
                      (passed_options (type_options self))]))"
    if h: "ability_to a BrowseTheWeb w = Inr r" "fst (page_prop drv r w) = Inr pg"
    by (simp add: Type_with_page [OF h])
  from opts run show ?thesis by blast
qed


theorem Type_waits_clears_types_witness:
  "ability_to 0 BrowseTheWeb lazy_world = Inr 3
   \<and> fst (page_prop sample_driver 3 lazy_world) = Inr 101
   \<and> wait_for_selector sample_driver (calls (snd (page_prop sample_driver 3 lazy_world))) 101
        (type_locator type_user) ''visible'' = Inr ()
   \<and> truthy (dict_get (type_options type_user) ''clear'' (PBool True))
   \<and> fill sample_driver (calls (snd (page_prop sample_driver 3 lazy_world)) @
          [WaitForSelector 101 (type_locator type_user) ''visible''])
        101 (type_locator type_user) '''' = Inr ()
   \<and> calls (snd (Type_perform_as sample_driver type_user 0 lazy_world)) =
        [NewContext 1, NewPage 100, WaitForSelector 101 ''#username'' ''visible'',
         Fill 101 ''#username'' '''', TypeText 101 ''#username'' ''student'' []]
   \<and> \<not> truthy (dict_get (type_options type_slowly) ''clear'' (PBool True))
   \<and> calls (snd (Type_perform_as sample_driver type_slowly 0 lazy_world)) =
        [NewContext 1, NewPage 100, WaitForSelector 101 ''#username'' ''visible'',
         TypeText 101 ''#username'' ''student'' [(''delay'', PInt 50)]]
   \<and> wait_for_selector sample_driver (calls (snd (page_prop sample_driver 3 lazy_world))) 101
        (type_locator type_gone) ''visible'' = Inl (DriverError ''Timeout'')
   \<and> fst (Type_perform_as sample_driver type_gone 0 lazy_world) = Inl (DriverError ''Timeout'')
   \<and> calls (snd (Type_perform_as sample_driver type_gone 0 lazy_world)) =
        [NewContext 1, NewPage 100, WaitForSelector 101 ''#gone'' ''visible'']
   \<and> wait_for_selector sample_driver (calls (snd (page_prop sample_driver 3 lazy_world))) 101
        (type_locator type_readonly) ''visible'' = Inr ()
   \<and> truthy (dict_get (type_options type_readonly) ''clear'' (PBool True))
   \<and> fill sample_driver (calls (snd (page_prop sample_driver 3 lazy_world)) @
          [WaitForSelector 101 (type_locator type_readonly) ''visible''])
        101 (type_locator type_readonly) '''' = Inl (DriverError ''Not editable'')
   \<and> fst (Type_perform_as sample_driver type_readonly 0 lazy_world)
        = Inl (DriverError ''Not editable'')
   \<and> calls (snd (Type_perform_as sample_driver type_readonly 0 lazy_world)) =
        [NewContext 1, NewPage 100, WaitForSelector 101 ''#readonly'' ''visible'',
         Fill 101 ''#readonly'' '''']
   \<and> map_of (type_options type_slowly) ''clear'' = Some (PBool False)
   \<and> ''delay'' \<noteq> ''clear''
   \<and> map_of (passed_options (type_options type_slowly)) ''delay'' = Some (PInt 50)
   \<and> map_of (passed_options (type_options type_slowly)) ''clear'' = None
   \<and> map_of (type_options type_user) ''clear'' = None"
proof -
  have h: "ability_to 0 BrowseTheWeb lazy_world = Inr 3"
    "fst (page_prop sample_driver 3 lazy_world) = Inr 101"
    "calls (snd (page_prop sample_driver 3 lazy_world)) = [NewContext 1, NewPage 100]"
    by (simp_all add: model_defs sample_defs lazy_world_def)
  have t: "type_locator type_user = ''#username''" "type_text type_user = ''student''"
    "type_options type_user = []"
    "type_locator type_slowly = ''#username''" "type_text type_slowly = ''student''"
    "type_options type_slowly = [(''delay'', PInt 50), (''clear'', PBool False)]"
    "type_locator type_gone = ''#gone''"
    "type_locator type_readonly = ''#readonly''" "type_options type_readonly = []"
    by (simp_all add: type_user_def type_slowly_def type_gone_def type_readonly_def
        TypeBuilder_into_def Type_init_def)
  have d: "wait_for_selector sample_driver [NewContext 1, NewPage 100] 101 ''#username'' ''visible''
        = Inr ()"
    "fill sample_driver [NewContext 1, NewPage 100, WaitForSelector 101 ''#username'' ''visible'']
        101 ''#username'' '''' = Inr ()"
    "wait_for_selector sample_driver [NewContext 1, NewPage 100] 101 ''#gone'' ''visible''
        = Inl (DriverError ''Timeout'')"
    "wait_for_selector sample_driver [NewContext 1, NewPage 100] 101 ''#readonly'' ''visible''
        = Inr ()"
    "fill sample_driver [NewContext 1, NewPage 100, WaitForSelector 101 ''#readonly'' ''visible'']
        101 ''#readonly'' '''' = Inl (DriverError ''Not editable'')"
    by (simp_all add: sample_driver_def)
  have o: "truthy (dict_get [] ''clear'' (PBool True))"
    "\<not> truthy (dict_get [(''delay'', PInt 50), (''clear'', PBool False)] ''clear'' (PBool True))"
    "passed_options [(''delay'', PInt 50), (''clear'', PBool False)] = [(''delay'', PInt 50)]"
    "passed_options [] = []"
    by (simp_all add: dict_get_def passed_options_def)
  from Type_waits_clears_types [of 0 lazy_world 3 sample_driver 101 type_user
      "DriverError ''Timeout''" "PBool False" "''delay''"]
    Type_waits_clears_types [of 0 lazy_world 3 sample_driver 101 type_slowly
      "DriverError ''Timeout''" "PBool False" "''delay''"]
    Type_waits_clears_types [of 0 lazy_world 3 sample_driver 101 type_gone
      "DriverError ''Timeout''" "PBool False" "''delay''"]
    Type_waits_clears_types [of 0 lazy_world 3 sample_driver 101 type_readonly
      "DriverError ''Not editable''" "PBool False" "''delay''"]
    h t d o
  show ?thesis by simp
qed

end
